theory Spec2Isabelle
  imports Complex_Main
begin

section \<open>Python values shared by the modules\<close>

text \<open>
  Exceptions of the source are values. \<open>ReError\<close> is \<open>re.error\<close> (an alternative that is
  not a regular expression), \<open>QueueEmpty\<close> is \<open>queue.Empty\<close>, \<open>ValueError\<close> is what
  \<open>Queue.task_done\<close> raises when called more often than items were put,
  \<open>UnknownValueError\<close> is \<open>sr.UnknownValueError\<close>, \<open>ImportError\<close> a failed import and
  \<open>OtherError\<close> any other subclass of \<open>Exception\<close> raised by a collaborator.
\<close>

datatype py_error =
    ReError
  | QueueEmpty
  | ValueError
  | UnknownValueError
  | ImportError
  | OtherError

text \<open>
  A Python callable is known by its name: the source never inspects a handler or a
  callback, it only stores it and calls it.
\<close>

type_synonym callable = string

text \<open>
  Readings of \<open>time.time()\<close> and the recorded latencies are floats in the source; they are
  real numbers here, so rounding is not part of the model.
\<close>

type_synonym seconds = real

subsection \<open>The string methods the source calls\<close>

text \<open>
  Text is ASCII here: \<open>str.lower\<close> maps \<open>A\<close>..\<open>Z\<close> to \<open>a\<close>..\<open>z\<close> and leaves every other
  character, and the whitespace of \<open>str.strip\<close> and \<open>str.split\<close> is the ASCII whitespace
  of \<open>str.isspace\<close> (codes 9 to 13, 28 to 31 and 32).
\<close>

definition lower_char :: "char \<Rightarrow> char" where
  "lower_char c =
     (let n = (of_char c :: nat) in if 65 \<le> n \<and> n \<le> 90 then char_of (n + 32) else c)"

definition py_lower :: "string \<Rightarrow> string" where
  "py_lower s = map lower_char s"

definition py_isspace :: "char \<Rightarrow> bool" where
  "py_isspace c =
     (let n = (of_char c :: nat) in (9 \<le> n \<and> n \<le> 13) \<or> (28 \<le> n \<and> n \<le> 32))"

definition py_strip :: "string \<Rightarrow> string" where
  "py_strip s = rev (dropWhile py_isspace (rev (dropWhile py_isspace s)))"

text \<open>\<open>s.split(sep)\<close> for a one-character separator: the empty string gives \<open>['']\<close>.\<close>

fun py_split :: "char \<Rightarrow> string \<Rightarrow> string list" where
  "py_split sep [] = [[]]"
| "py_split sep (c # cs) =
     (if c = sep then [] # py_split sep cs
      else (case py_split sep cs of
              [] \<Rightarrow> [[c]]
            | w # ws \<Rightarrow> (c # w) # ws))"

text \<open>\<open>s.split()\<close> with no argument: the maximal runs of non-whitespace characters.\<close>

fun py_words_acc :: "string \<Rightarrow> string \<Rightarrow> string list" where
  "py_words_acc cur [] = (if cur = [] then [] else [rev cur])"
| "py_words_acc cur (c # cs) =
     (if py_isspace c
      then (if cur = [] then py_words_acc [] cs else rev cur # py_words_acc [] cs)
      else py_words_acc (c # cur) cs)"

definition py_words :: "string \<Rightarrow> string list" where
  "py_words s = py_words_acc [] s"

section \<open>voice\_commands.py\<close>

datatype CommandPriority = HIGH | NORMAL | LOW

record VoiceCommand =
  pattern :: string
  handler :: callable
  description :: string
  priority :: CommandPriority
  requires_confirmation :: bool
  category :: string

text \<open>
  The two dictionaries keep insertion order, which is the order of the scan, so they are
  association lists. \<open>threads\<close> is the list of daemon threads started so far, each with its
  target and its one argument: it is how the model observes which handler fired.
\<close>

record VoiceCommandManager =
  commands :: "(string \<times> VoiceCommand) list"
  custom_commands :: "(string \<times> VoiceCommand) list"
  command_history :: "string list"
  is_processing :: bool
  response_times :: "seconds list"
  threads :: "(callable \<times> string) list"

text \<open>\<open>d[k] = v\<close>: a key already present keeps its place and takes the new value.\<close>

fun dict_set :: "'k \<Rightarrow> 'v \<Rightarrow> ('k \<times> 'v) list \<Rightarrow> ('k \<times> 'v) list" where
  "dict_set k v [] = [(k, v)]"
| "dict_set k v ((k', v') # kvs) =
     (if k' = k then (k, v) # kvs else (k', v') # dict_set k v kvs)"

definition add_command ::
  "string \<Rightarrow> callable \<Rightarrow> string \<Rightarrow> CommandPriority \<Rightarrow> bool \<Rightarrow> string \<Rightarrow>
   VoiceCommandManager \<Rightarrow> VoiceCommandManager" where
  "add_command pat h descr prio conf cat s =
     (let command = \<lparr>pattern = pat, handler = h, description = descr, priority = prio,
                      requires_confirmation = conf, category = cat\<rparr>
      in s\<lparr>commands := dict_set pat command (commands s)\<rparr>)"

definition add_custom_command ::
  "string \<Rightarrow> callable \<Rightarrow> string \<Rightarrow> CommandPriority \<Rightarrow> bool \<Rightarrow> string \<Rightarrow>
   VoiceCommandManager \<Rightarrow> VoiceCommandManager" where
  "add_custom_command pat h descr prio conf cat s =
     (let command = \<lparr>pattern = pat, handler = h, description = descr, priority = prio,
                      requires_confirmation = conf, category = cat\<rparr>
      in s\<lparr>custom_commands := dict_set pat command (custom_commands s)\<rparr>)"

text \<open>
  \<open>re.search(p, text, re.IGNORECASE)\<close> belongs to the standard library, so the regular
  expression engine is a parameter: \<open>Inr True\<close> when a match object comes back, \<open>Inr False\<close>
  for \<open>None\<close>, \<open>Inl ReError\<close> when \<open>p\<close> does not compile.
\<close>

type_synonym re_search = "string \<Rightarrow> string \<Rightarrow> py_error + bool"

text \<open>The loop of \<open>_match_pattern\<close> over the alternatives, left to right.\<close>

fun match_alternatives :: "re_search \<Rightarrow> string list \<Rightarrow> string \<Rightarrow> py_error + bool" where
  "match_alternatives rs [] text = Inr False"
| "match_alternatives rs (p # ps) text =
     (case rs (py_strip p) text of
        Inl e \<Rightarrow> Inl e
      | Inr True \<Rightarrow> Inr True
      | Inr False \<Rightarrow> match_alternatives rs ps text)"

definition match_pattern :: "re_search \<Rightarrow> string \<Rightarrow> string \<Rightarrow> py_error + bool" where
  "match_pattern rs pat text = match_alternatives rs (py_split (CHR ''|'') pat) text"

text \<open>
  \<open>_execute_command\<close>: the confirmation branch is \<open>pass\<close>; the handler is started on a
  daemon thread with the text as its argument and is not waited for. Starting a thread is
  taken to succeed; the \<open>except\<close> around it only prints.
\<close>

definition execute_command ::
  "VoiceCommand \<Rightarrow> string \<Rightarrow> VoiceCommandManager \<Rightarrow> VoiceCommandManager" where
  "execute_command command text s = s\<lparr>threads := threads s @ [(handler command, text)]\<rparr>"

text \<open>\<open>xs[-100:]\<close>: the last 100 elements, all of them when there are fewer.\<close>

definition last_100 :: "'a list \<Rightarrow> 'a list" where
  "last_100 xs = drop (length xs - 100) xs"

text \<open>\<open>_record_response_time\<close>, \<open>now\<close> being the reading of \<open>time.time()\<close> it takes.\<close>

definition record_response_time ::
  "seconds \<Rightarrow> seconds \<Rightarrow> VoiceCommandManager \<Rightarrow> VoiceCommandManager" where
  "record_response_time start_time now s =
     (let response_time = now - start_time;
          rts = response_times s @ [response_time]
      in s\<lparr>response_times := (if length rts > 100 then last_100 rts else rts)\<rparr>)"

definition get_average_response_time :: "VoiceCommandManager \<Rightarrow> real" where
  "get_average_response_time s =
     (if response_times s = [] then 0
      else sum_list (response_times s) / real (length (response_times s)))"

text \<open>
  One \<open>for pattern, command in d.items()\<close> loop of \<open>process_voice_input\<close>. \<open>Inr True\<close> is
  the \<open>return True\<close> inside the loop, \<open>Inr False\<close> the loop running to its end, \<open>Inl e\<close> an
  exception leaving \<open>_match_pattern\<close>.
\<close>

fun scan_commands ::
  "re_search \<Rightarrow> seconds \<Rightarrow> seconds \<Rightarrow> string \<Rightarrow> (string \<times> VoiceCommand) list \<Rightarrow>
   VoiceCommandManager \<Rightarrow> (py_error + bool) \<times> VoiceCommandManager" where
  "scan_commands rs start_time now text [] s = (Inr False, s)"
| "scan_commands rs start_time now text ((pat, command) # rest) s =
     (case match_pattern rs pat text of
        Inl e \<Rightarrow> (Inl e, s)
      | Inr True \<Rightarrow>
          (Inr True, record_response_time start_time now (execute_command command text s))
      | Inr False \<Rightarrow> scan_commands rs start_time now text rest s)"

text \<open>
  \<open>process_voice_input\<close>. \<open>start_time\<close> and \<open>now\<close> are the two readings of the clock, at
  entry and in \<open>_record_response_time\<close>. The result is the returned boolean or the
  exception that leaves the call, with the manager as the call leaves it: the \<open>finally\<close>
  clause runs on every path that entered the \<open>try\<close>.
\<close>

definition process_voice_input ::
  "re_search \<Rightarrow> seconds \<Rightarrow> seconds \<Rightarrow> VoiceCommandManager \<Rightarrow> string \<Rightarrow>
   (py_error + bool) \<times> VoiceCommandManager" where
  "process_voice_input rs start_time now s text0 =
     (if is_processing s then (Inr False, s)
      else
        let s1 = s\<lparr>is_processing := True\<rparr>;
            text = py_strip (py_lower text0);
            s2 = s1\<lparr>command_history := command_history s1 @ [text]\<rparr>;
            (r, s3) =
              (case scan_commands rs start_time now text (custom_commands s2) s2 of
                 (Inr False, s') \<Rightarrow> scan_commands rs start_time now text (commands s') s'
               | other \<Rightarrow> other)
        in (r, s3\<lparr>is_processing := False\<rparr>))"

text \<open>
  A handler thread ends when its target returns or raises: an exception that leaves the
  target ends that thread only (the interpreter prints the traceback). \<open>thread_exit i\<close> is
  the \<open>i\<close>-th started thread ending, either way; nothing of the manager is touched.
\<close>

datatype handler_outcome = Returned | Raised

definition thread_exit ::
  "handler_outcome \<Rightarrow> nat \<Rightarrow> VoiceCommandManager \<Rightarrow> VoiceCommandManager" where
  "thread_exit outcome i s =
     (case outcome of
        Returned \<Rightarrow> s\<lparr>threads := take i (threads s) @ drop (Suc i) (threads s)\<rparr>
      | Raised \<Rightarrow> s\<lparr>threads := take i (threads s) @ drop (Suc i) (threads s)\<rparr>)"

text \<open>
  A regular expression engine for examples: on a pattern of letters, digits and spaces
  \<open>re.search\<close> with \<open>re.IGNORECASE\<close> is a search for the pattern as a substring, letter
  case ignored; the pattern \<open>(\<close> does not compile.
\<close>

fun is_prefix :: "string \<Rightarrow> string \<Rightarrow> bool" where
  "is_prefix [] ys = True"
| "is_prefix (x # xs) [] = False"
| "is_prefix (x # xs) (y # ys) = (x = y \<and> is_prefix xs ys)"

fun is_substring :: "string \<Rightarrow> string \<Rightarrow> bool" where
  "is_substring p [] = (p = [])"
| "is_substring p (c # cs) = (is_prefix p (c # cs) \<or> is_substring p cs)"

definition literal_search :: re_search where
  "literal_search p text =
     (if p = ''('' then Inl ReError else Inr (is_substring (py_lower p) (py_lower text)))"

section \<open>media\_services.py: TTSService\<close>

type_synonym bytes = string

text \<open>
  What the process does to the outside is a trace of events, in the order of the calls.
\<close>

datatype event =
    Print string
  | GenerateTTS string string string
  | PlayFile string
  | HandleError string
  | Sleep real
  | Synthesize string
  | PlayAudio bytes
  | SystemPlay bytes
  | CallbackCalled callable
  | MixerStop
  | RecognizeGoogle bytes
  | ThreadStart callable string

text \<open>
  \<open>edge_tts_loaded\<close> is \<open>self.edge_tts is not None\<close>. The lock only brackets the two
  assignments of \<open>tts_playing\<close> and is left out.
\<close>

record TTSService =
  edge_tts_loaded :: bool
  tts_playing :: bool

text \<open>
  The collaborators of \<open>TTSService\<close>: \<open>save_speech text filename voice\<close> is the outcome
  of \<open>comm.save\<close> under \<open>asyncio.run\<close> (\<open>None\<close> when it returns), \<open>popen\<close> the outcome of
  \<open>subprocess.Popen\<close> on the file, \<open>config_language\<close> the configured language and
  \<open>get_voice_for_language\<close> the voice table of the language processor.
\<close>

record tts_env =
  save_speech :: "string \<Rightarrow> string \<Rightarrow> string \<Rightarrow> py_error option"
  popen :: "string \<Rightarrow> py_error option"
  config_language :: string
  get_voice_for_language :: "string \<Rightarrow> string"

section \<open>fast\_tts.py: FastTTSService\<close>

text \<open>The dictionary that \<open>speak\<close> puts on the queue.\<close>

record tts_request =
  req_text :: string
  req_voice :: string
  req_rate :: string
  req_pitch :: string
  req_volume :: string
  req_callback :: "callable option"
  req_timestamp :: seconds

text \<open>
  \<open>queue.Queue\<close>: the items in FIFO order and the count of unfinished tasks, which \<open>put\<close>
  increments and \<open>task_done\<close> decrements.
\<close>

record py_queue =
  items :: "tts_request list"
  unfinished_tasks :: nat

record FastTTSService =
  is_available :: bool
  voice_queue :: py_queue
  is_speaking :: bool
  current_voice :: string
  rate :: string
  pitch :: string
  volume :: string

text \<open>
  The collaborators of \<open>FastTTSService\<close>: \<open>edge_generate ssml\<close> is what running the
  edge-tts coroutine gives, \<open>pygame_play\<close> the outcome of the pygame branch of
  \<open>_play_audio\<close> (\<open>Some ImportError\<close> when pygame is missing), \<open>system_play\<close> the outcome of
  its fallback branch, \<open>callback_outcome\<close> whether a completion callback raises and
  \<open>mixer_get_init\<close> the outcome of importing pygame and asking \<open>pygame.mixer.get_init()\<close>.
\<close>

record fast_env =
  edge_generate :: "string \<Rightarrow> py_error + bytes"
  pygame_play :: "bytes \<Rightarrow> py_error option"
  system_play :: "bytes \<Rightarrow> py_error option"
  callback_outcome :: "callable \<Rightarrow> py_error option"
  mixer_get_init :: "py_error + bool"

section \<open>The process: both speech services and the trace\<close>

record world =
  tts_service :: TTSService
  fast_tts :: FastTTSService
  trace :: "event list"

definition emit :: "event \<Rightarrow> world \<Rightarrow> world" where
  "emit e w = w\<lparr>trace := trace w @ [e]\<rparr>"

subsection \<open>TTSService\<close>

definition tts_is_available :: "TTSService \<Rightarrow> bool" where
  "tts_is_available t = edge_tts_loaded t"

definition is_playing :: "TTSService \<Rightarrow> bool" where
  "is_playing t = tts_playing t"

definition estimate_tts_duration :: "string \<Rightarrow> real" where
  "estimate_tts_duration txt = max (6 / 10) (real (length (py_words txt)) / (28 / 10))"

text \<open>\<open>_play_file_default\<close> catches what \<open>Popen\<close> raises and hands it to the error handler.\<close>

definition play_file_default :: "tts_env \<Rightarrow> string \<Rightarrow> world \<Rightarrow> world" where
  "play_file_default env path w =
     (case popen env path of
        None \<Rightarrow> emit (PlayFile path) w
      | Some e \<Rightarrow> emit (HandleError ''Audio playback'') w)"

text \<open>\<open>_generate_tts\<close> under \<open>asyncio.run\<close>: raises when edge-tts is missing or the save fails.\<close>

definition generate_tts ::
  "tts_env \<Rightarrow> string \<Rightarrow> string \<Rightarrow> string \<Rightarrow> world \<Rightarrow> (py_error + unit) \<times> world" where
  "generate_tts env txt filename voice w =
     (if \<not> edge_tts_loaded (tts_service w) then (Inl OtherError, w)
      else (case save_speech env txt filename voice of
              Some e \<Rightarrow> (Inl e, emit (GenerateTTS txt filename voice) w)
            | None \<Rightarrow> (Inr (), emit (GenerateTTS txt filename voice) w)))"

definition set_tts_playing :: "bool \<Rightarrow> world \<Rightarrow> world" where
  "set_tts_playing b w = w\<lparr>tts_service := (tts_service w)\<lparr>tts_playing := b\<rparr>\<rparr>"

text \<open>
  The closure \<open>_runner\<close> of \<open>TTSService.speak\<close>, the body of the thread it starts: the
  \<open>try\<close> with its \<open>except Exception\<close>, then the \<open>finally\<close> clause.
\<close>

definition speak_runner :: "tts_env \<Rightarrow> string \<Rightarrow> string \<Rightarrow> world \<Rightarrow> world" where
  "speak_runner env txt voice w =
     (let w1 = set_tts_playing True w;
          w2 = (case generate_tts env txt ''speech.mp3'' voice w1 of
                  (Inr u, w') \<Rightarrow> play_file_default env ''speech.mp3'' w'
                | (Inl e, w') \<Rightarrow> emit (HandleError ''TTS generation'') w');
          w3 = emit (Sleep (estimate_tts_duration txt + 35 / 100)) w2
      in set_tts_playing False w3)"

text \<open>
  \<open>TTSService.speak\<close>: the world after the call and, when a thread was started, the text
  and the voice its \<open>_runner\<close> holds.
\<close>

definition tts_speak ::
  "tts_env \<Rightarrow> string \<Rightarrow> string option \<Rightarrow> world \<Rightarrow> world \<times> (string \<times> string) option" where
  "tts_speak env txt language w =
     (if \<not> tts_is_available (tts_service w)
      then (emit (Print (''[TTS fallback] '' @ txt)) w, None)
      else
        let lang = (case language of None \<Rightarrow> config_language env | Some l \<Rightarrow> l);
            voice = get_voice_for_language env lang
        in (w, Some (txt, voice)))"

subsection \<open>FastTTSService\<close>

text \<open>\<open>x or default\<close> on an optional string: \<open>None\<close> and the empty string are false.\<close>

definition or_default :: "string option \<Rightarrow> string \<Rightarrow> string" where
  "or_default x d = (case x of None \<Rightarrow> d | Some v \<Rightarrow> if v = [] then d else v)"

definition set_fast :: "(FastTTSService \<Rightarrow> FastTTSService) \<Rightarrow> world \<Rightarrow> world" where
  "set_fast f w = w\<lparr>fast_tts := f (fast_tts w)\<rparr>"

definition queue_put :: "tts_request \<Rightarrow> py_queue \<Rightarrow> py_queue" where
  "queue_put r q = q\<lparr>items := items q @ [r], unfinished_tasks := Suc (unfinished_tasks q)\<rparr>"

definition task_done :: "py_queue \<Rightarrow> py_error + py_queue" where
  "task_done q =
     (if unfinished_tasks q = 0 then Inl ValueError
      else Inr (q\<lparr>unfinished_tasks := unfinished_tasks q - 1\<rparr>))"

text \<open>
  \<open>FastTTSService.speak\<close>; \<open>now\<close> is the reading of \<open>time.time()\<close> stored as the timestamp.
  When the service is unavailable the callback runs in the caller, and what it raises
  leaves \<open>speak\<close>.
\<close>

definition fast_speak ::
  "fast_env \<Rightarrow> seconds \<Rightarrow> string \<Rightarrow> string option \<Rightarrow> string option \<Rightarrow> string option \<Rightarrow>
   string option \<Rightarrow> callable option \<Rightarrow> world \<Rightarrow> (py_error + unit) \<times> world" where
  "fast_speak env now txt voice0 rate0 pitch0 volume0 cb w =
     (if \<not> is_available (fast_tts w) then
        (let w1 = emit (Print (''[TTS] '' @ txt)) w
         in case cb of
              None \<Rightarrow> (Inr (), w1)
            | Some c \<Rightarrow>
                (case callback_outcome env c of
                   None \<Rightarrow> (Inr (), emit (CallbackCalled c) w1)
                 | Some e \<Rightarrow> (Inl e, emit (CallbackCalled c) w1)))
      else
        let f = fast_tts w;
            tts_request = \<lparr>req_text = txt,
                           req_voice = or_default voice0 (current_voice f),
                           req_rate = or_default rate0 (rate f),
                           req_pitch = or_default pitch0 (pitch f),
                           req_volume = or_default volume0 (volume f),
                           req_callback = cb,
                           req_timestamp = now\<rparr>
        in (Inr (), set_fast (\<lambda>f. f\<lparr>voice_queue := queue_put tts_request (voice_queue f)\<rparr>) w))"

text \<open>
  \<open>_clear_queue\<close>: \<open>get_nowait\<close> then \<open>task_done\<close> until the queue is empty; the
  \<open>ValueError\<close> of \<open>task_done\<close> is not caught there.
\<close>

fun clear_items :: "tts_request list \<Rightarrow> nat \<Rightarrow> (py_error + unit) \<times> tts_request list \<times> nat" where
  "clear_items [] u = (Inr (), [], u)"
| "clear_items (r # rest) u =
     (if u = 0 then (Inl ValueError, rest, u) else clear_items rest (u - 1))"

definition clear_queue :: "world \<Rightarrow> (py_error + unit) \<times> world" where
  "clear_queue w =
     (let q = voice_queue (fast_tts w);
          (r, its, u) = clear_items (items q) (unfinished_tasks q)
      in (r, set_fast (\<lambda>f. f\<lparr>voice_queue := \<lparr>items = its, unfinished_tasks = u\<rparr>\<rparr>) w))"

text \<open>\<open>_stop_current_speech\<close>: a bare \<open>except\<close> swallows everything.\<close>

definition stop_current_speech :: "fast_env \<Rightarrow> world \<Rightarrow> world" where
  "stop_current_speech env w =
     (case mixer_get_init env of
        Inr True \<Rightarrow> emit MixerStop w
      | Inr False \<Rightarrow> w
      | Inl e \<Rightarrow> w)"

definition speak_immediate ::
  "fast_env \<Rightarrow> seconds \<Rightarrow> string \<Rightarrow> string option \<Rightarrow> world \<Rightarrow> (py_error + unit) \<times> world" where
  "speak_immediate env now txt voice0 w =
     (if \<not> is_available (fast_tts w) then (Inr (), emit (Print (''[TTS] '' @ txt)) w)
      else
        (case clear_queue w of
           (Inl e, w1) \<Rightarrow> (Inl e, w1)
         | (Inr u, w1) \<Rightarrow>
             fast_speak env now txt voice0 None None None None (stop_current_speech env w1)))"

text \<open>The SSML document of \<open>_process_tts_request\<close>, line by line as the f-string has it.\<close>

definition spaces :: "nat \<Rightarrow> string" where
  "spaces n = replicate n (CHR '' '')"

definition make_ssml :: "string \<Rightarrow> string \<Rightarrow> string \<Rightarrow> string \<Rightarrow> string \<Rightarrow> string" where
  \<open>make_ssml voice0 rate0 pitch0 volume0 txt =
     [CHR 0x0A] @ spaces 12 @
       ''<speak version="1.0" xmlns="http://www.w3.org/2001/10/synthesis" xml:lang="en-US">'' @
     [CHR 0x0A] @ spaces 16 @ ''<voice name="'' @ voice0 @ ''">'' @
     [CHR 0x0A] @ spaces 20 @ ''<prosody rate="'' @ rate0 @ ''" pitch="'' @ pitch0 @
       ''" volume="'' @ volume0 @ ''">'' @
     [CHR 0x0A] @ spaces 24 @ txt @
     [CHR 0x0A] @ spaces 20 @ ''</prosody>'' @
     [CHR 0x0A] @ spaces 16 @ ''</voice>'' @
     [CHR 0x0A] @ spaces 12 @ ''</speak>'' @
     [CHR 0x0A] @ spaces 12\<close>

text \<open>\<open>_generate_audio\<close>: any exception is printed and \<open>None\<close> is returned.\<close>

definition generate_audio :: "fast_env \<Rightarrow> string \<Rightarrow> world \<Rightarrow> bytes option \<times> world" where
  "generate_audio env ssml w =
     (case edge_generate env ssml of
        Inr audio_data \<Rightarrow> (Some audio_data, emit (Synthesize ssml) w)
      | Inl e \<Rightarrow> (None, emit (Print ''Audio generation error'') (emit (Synthesize ssml) w)))"

text \<open>
  \<open>_play_audio\<close>: the pygame branch; on \<open>ImportError\<close> the system player; every other
  exception, and every exception of the fallback, is printed.
\<close>

definition play_audio :: "fast_env \<Rightarrow> bytes \<Rightarrow> world \<Rightarrow> world" where
  "play_audio env audio_data w =
     (case pygame_play env audio_data of
        None \<Rightarrow> emit (PlayAudio audio_data) w
      | Some ImportError \<Rightarrow>
          (case system_play env audio_data of
             None \<Rightarrow> emit (SystemPlay audio_data) w
           | Some e \<Rightarrow> emit (Print ''Audio playback error'') w)
      | Some e \<Rightarrow> emit (Print ''Audio playback error'') w)"

text \<open>
  The \<open>try\<close> body of \<open>_process_tts_request\<close>. \<open>if audio_data\<close> is false for \<open>None\<close> and for
  empty bytes. The only exception that can leave the body is the callback's.
\<close>

definition process_tts_request_body ::
  "fast_env \<Rightarrow> tts_request \<Rightarrow> world \<Rightarrow> (py_error + unit) \<times> world" where
  "process_tts_request_body env request w =
     (let ssml = make_ssml (req_voice request) (req_rate request) (req_pitch request)
                   (req_volume request) (req_text request);
          (audio_data, w1) = generate_audio env ssml w;
          w2 = (case audio_data of
                  None \<Rightarrow> w1
                | Some a \<Rightarrow> if a = [] then w1 else play_audio env a w1)
      in case req_callback request of
           None \<Rightarrow> (Inr (), w2)
         | Some c \<Rightarrow>
             (case callback_outcome env c of
                None \<Rightarrow> (Inr (), emit (CallbackCalled c) w2)
              | Some e \<Rightarrow> (Inl e, emit (CallbackCalled c) w2)))"

text \<open>\<open>_process_tts_request\<close>: the body under its \<open>except Exception\<close>.\<close>

definition process_tts_request :: "fast_env \<Rightarrow> tts_request \<Rightarrow> world \<Rightarrow> world" where
  "process_tts_request env request w =
     (case process_tts_request_body env request w of
        (Inr u, w') \<Rightarrow> w'
      | (Inl e, w') \<Rightarrow> emit (Print ''TTS processing error'') w')"

text \<open>
  The \<open>try\<close> body of one turn of the loop of \<open>_tts_worker\<close>. \<open>get(timeout=1)\<close> on an empty
  queue raises \<open>queue.Empty\<close>; \<open>now\<close> is the reading of \<open>time.time()\<close> of the staleness
  test, whose \<open>continue\<close> skips everything after it, \<open>task_done\<close> included.
\<close>

definition tts_worker_body :: "fast_env \<Rightarrow> seconds \<Rightarrow> world \<Rightarrow> (py_error + unit) \<times> world" where
  "tts_worker_body env now w =
     (case items (voice_queue (fast_tts w)) of
        [] \<Rightarrow> (Inl QueueEmpty, w)
      | request # rest \<Rightarrow>
          (let w1 = set_fast (\<lambda>f. f\<lparr>voice_queue := (voice_queue f)\<lparr>items := rest\<rparr>\<rparr>) w
           in if now - req_timestamp request > 5 then (Inr (), w1)
              else
                let w2 = set_fast (\<lambda>f. f\<lparr>is_speaking := True\<rparr>) w1;
                    w3 = process_tts_request env request w2;
                    w4 = set_fast (\<lambda>f. f\<lparr>is_speaking := False\<rparr>) w3
                in (case task_done (voice_queue (fast_tts w4)) of
                      Inl e \<Rightarrow> (Inl e, w4)
                    | Inr q \<Rightarrow> (Inr (), set_fast (\<lambda>f. f\<lparr>voice_queue := q\<rparr>) w4))))"

text \<open>One turn of the \<open>while True\<close> loop: the body under its two \<open>except\<close> clauses.\<close>

definition tts_worker_iteration :: "fast_env \<Rightarrow> seconds \<Rightarrow> world \<Rightarrow> world" where
  "tts_worker_iteration env now w =
     (case tts_worker_body env now w of
        (Inr u, w') \<Rightarrow> w'
      | (Inl QueueEmpty, w') \<Rightarrow> w'
      | (Inl e, w') \<Rightarrow>
          set_fast (\<lambda>f. f\<lparr>is_speaking := False\<rparr>) (emit (Print ''TTS Worker error'') w'))"

text \<open>
  The loop never ends by itself; \<open>tts_worker env nows\<close> is its first \<open>length nows\<close> turns,
  one clock reading for each.
\<close>

fun tts_worker :: "fast_env \<Rightarrow> seconds list \<Rightarrow> world \<Rightarrow> world" where
  "tts_worker env [] w = w"
| "tts_worker env (now # nows) w = tts_worker env nows (tts_worker_iteration env now w)"

section \<open>rose\_v30\_refactored.py: the background listener callback\<close>

text \<open>
  \<open>callback(recognizer, audio)\<close> of \<open>_start_background_listener\<close>;
  \<open>recognize_google\<close> is the recogniser's answer for the audio. A recognised text starts
  a thread running \<open>handle_command\<close> on it.
\<close>

definition callback :: "(bytes \<Rightarrow> py_error + string) \<Rightarrow> world \<Rightarrow> bytes \<Rightarrow> world" where
  "callback recognize_google w audio =
     (if is_playing (tts_service w) then w
      else
        (case recognize_google audio of
           Inr txt \<Rightarrow>
             (let w1 = emit (RecognizeGoogle audio) w
              in if txt \<noteq> [] \<and> py_strip txt \<noteq> []
                 then emit (ThreadStart ''handle_command'' txt) w1
                 else w1)
         | Inl UnknownValueError \<Rightarrow> emit (RecognizeGoogle audio) w
         | Inl e \<Rightarrow> emit (HandleError ''Voice recognition'') (emit (RecognizeGoogle audio) w)))"

section \<open>Definitions used to state the properties\<close>

text \<open>Recording a sequence of latencies, each given by its two clock readings.\<close>

fun record_many :: "(seconds \<times> seconds) list \<Rightarrow> VoiceCommandManager \<Rightarrow> VoiceCommandManager" where
  "record_many [] s = s"
| "record_many ((start_time, now) # rest) s =
     record_many rest (record_response_time start_time now s)"

text \<open>
  Two managers differ only in priorities when they are equal once every entry's priority
  is overwritten with the same value.
\<close>

definition forget_priority :: "string \<times> VoiceCommand \<Rightarrow> string \<times> VoiceCommand" where
  "forget_priority e = (fst e, (snd e)\<lparr>priority := NORMAL\<rparr>)"

definition forget_priorities :: "VoiceCommandManager \<Rightarrow> VoiceCommandManager" where
  "forget_priorities s =
     s\<lparr>commands := map forget_priority (commands s),
       custom_commands := map forget_priority (custom_commands s)\<rparr>"

subsection \<open>Concrete inputs\<close>

definition example_command ::
  "string \<Rightarrow> callable \<Rightarrow> CommandPriority \<Rightarrow> string \<times> VoiceCommand" where
  "example_command pat h prio =
     (pat, \<lparr>pattern = pat, handler = h, description = [], priority = prio,
            requires_confirmation = False, category = ''general''\<rparr>)"

definition example_manager :: VoiceCommandManager where
  "example_manager =
     \<lparr>commands = [example_command ''hello|hi'' ''greet'' NORMAL,
                  example_command ''play music|music'' ''play_music'' HIGH],
      custom_commands = [example_command ''change theme'' ''theme_change'' NORMAL,
                         example_command ''music'' ''my_music'' LOW],
      command_history = [], is_processing = False, response_times = [], threads = []\<rparr>"

definition busy_manager :: VoiceCommandManager where
  "busy_manager = example_manager\<lparr>is_processing := True\<rparr>"

text \<open>A custom entry whose trigger does not compile.\<close>

definition broken_manager :: VoiceCommandManager where
  "broken_manager =
     example_manager\<lparr>custom_commands := [example_command ''('' ''broken'' NORMAL]\<rparr>"


text \<open>The example registry with every priority changed.\<close>

definition reprioritised_manager :: VoiceCommandManager where
  "reprioritised_manager =
     example_manager
       \<lparr>commands := [example_command ''hello|hi'' ''greet'' LOW,
                     example_command ''play music|music'' ''play_music'' LOW],
        custom_commands := [example_command ''change theme'' ''theme_change'' HIGH,
                            example_command ''music'' ''my_music'' HIGH]\<rparr>"

text \<open>
  A process whose fast-TTS queue holds two requests, put at clock readings 100 and 107,
  and the same process while \<open>TTSService\<close> is speaking.
\<close>

definition example_request :: "string \<Rightarrow> seconds \<Rightarrow> tts_request" where
  "example_request txt ts =
     \<lparr>req_text = txt, req_voice = ''en-US-AriaNeural'', req_rate = ''+0%'',
      req_pitch = ''+0Hz'', req_volume = ''+0%'', req_callback = Some ''on_done'',
      req_timestamp = ts\<rparr>"

definition example_world :: world where
  "example_world =
     \<lparr>tts_service = \<lparr>edge_tts_loaded = True, tts_playing = False\<rparr>,
      fast_tts = \<lparr>is_available = True,
                  voice_queue = \<lparr>items = [example_request ''A'' 100, example_request ''B'' 107],
                                  unfinished_tasks = 2\<rparr>,
                  is_speaking = False, current_voice = ''en-US-AriaNeural'',
                  rate = ''+0%'', pitch = ''+0Hz'', volume = ''+0%''\<rparr>,
      trace = []\<rparr>"

definition speaking_world :: world where
  "speaking_world = set_tts_playing True example_world"

text \<open>
  Collaborators that fail: synthesis returns audio, but playback raises in both branches
  and the completion callback raises; for \<open>TTSService\<close>, saving the speech file raises.
\<close>

definition failing_env :: fast_env where
  "failing_env =
     \<lparr>edge_generate = (\<lambda>ssml. Inr ''mp3''),
      pygame_play = (\<lambda>a. Some OtherError),
      system_play = (\<lambda>a. Some OtherError),
      callback_outcome = (\<lambda>c. Some OtherError),
      mixer_get_init = Inl ImportError\<rparr>"

definition failing_tts_env :: tts_env where
  "failing_tts_env =
     \<lparr>save_speech = (\<lambda>txt filename voice. Some OtherError),
      popen = (\<lambda>path. Some OtherError),
      config_language = ''en'',
      get_voice_for_language = (\<lambda>l. ''en-US-JennyNeural'')\<rparr>"

section \<open>Dispatch: the scan of the registry\<close>

lemma scan_skip:
  "\<forall>(q, d) \<in> set pre. match_pattern rs q t = Inr False \<Longrightarrow>
   scan_commands rs a b t (pre @ rest) s = scan_commands rs a b t rest s"
  by (induction pre) auto

lemma scan_no_match:
  "\<forall>(q, d) \<in> set es. match_pattern rs q t = Inr False \<Longrightarrow>
   scan_commands rs a b t es s = (Inr False, s)"
  by (induction es) auto

lemma scan_hit:
  "match_pattern rs p t = Inr True \<Longrightarrow>
   scan_commands rs a b t ((p, c) # post) s =
     (Inr True, record_response_time a b (execute_command c t s))"
  by simp

lemma scan_False_state:
  "scan_commands rs a b t es s = (Inr False, s') \<Longrightarrow> s' = s"
  by (induction es) (auto split: sum.splits bool.splits)

lemma scan_append:
  "scan_commands rs a b t (xs @ ys) s =
     (case scan_commands rs a b t xs s of
        (Inr False, s') \<Rightarrow> scan_commands rs a b t ys s'
      | other \<Rightarrow> other)"
  by (induction xs) (auto split: sum.splits bool.splits)

text \<open>
  An accepted call is one scan of the custom entries followed by the builtin ones, between
  setting and clearing the guard.
\<close>

lemma pvi_accepted:
  "\<not> is_processing s \<Longrightarrow>
   process_voice_input rs a b s text0 =
     (let t = py_strip (py_lower text0);
          s2 = s\<lparr>is_processing := True, command_history := command_history s @ [t]\<rparr>;
          (r, s3) = scan_commands rs a b t (custom_commands s @ commands s) s2
      in (r, s3\<lparr>is_processing := False\<rparr>))"
  unfolding process_voice_input_def Let_def scan_append
  by (auto split: prod.splits sum.splits bool.splits dest: scan_False_state)

lemma pvi_hit:
  assumes "\<not> is_processing s"
    and "custom_commands s @ commands s = pre @ (p, c) # post"
    and "\<forall>(q, d) \<in> set pre. match_pattern rs q (py_strip (py_lower text0)) = Inr False"
    and "match_pattern rs p (py_strip (py_lower text0)) = Inr True"
  shows "process_voice_input rs start_time now s text0 =
           (Inr True,
            s\<lparr>command_history := command_history s @ [py_strip (py_lower text0)],
              response_times := last_100 (response_times s @ [now - start_time]),
              threads := threads s @ [(handler c, py_strip (py_lower text0))]\<rparr>)"
proof -
  let ?t = "py_strip (py_lower text0)"
  let ?s2 = "s\<lparr>is_processing := True, command_history := command_history s @ [?t]\<rparr>"
  have "scan_commands rs start_time now ?t (custom_commands s @ commands s) ?s2 =
          scan_commands rs start_time now ?t ((p, c) # post) ?s2"
    unfolding assms(2) using assms(3) by (rule scan_skip)
  also have "\<dots> = (Inr True, record_response_time start_time now (execute_command c ?t ?s2))"
    using assms(4) by (rule scan_hit)
  finally have scan:
    "scan_commands rs start_time now ?t (custom_commands s @ commands s) ?s2 =
       (Inr True, record_response_time start_time now (execute_command c ?t ?s2))" .
  show ?thesis
    using assms(1)
    by (simp add: pvi_accepted scan Let_def record_response_time_def execute_command_def
        last_100_def)
qed

lemma pvi_rejected: "is_processing s \<Longrightarrow> process_voice_input rs a b s text0 = (Inr False, s)"
  by (simp add: process_voice_input_def)

lemma scan_outcome:
  "scan_commands rs a b t es s = (r, s') \<Longrightarrow>
   (r = Inr True \<and> (\<exists>c \<in> snd ` set es. s' = record_response_time a b (execute_command c t s))) \<or>
   (r \<noteq> Inr True \<and> s' = s)"
  by (induction es) (auto split: sum.splits bool.splits)

lemma record_response_time_last_100:
  "response_times (record_response_time a b s) = last_100 (response_times s @ [b - a])"
  by (simp add: record_response_time_def last_100_def Let_def)

lemma record_response_time_frame:
  "commands (record_response_time a b s) = commands s"
  "custom_commands (record_response_time a b s) = custom_commands s"
  "command_history (record_response_time a b s) = command_history s"
  "is_processing (record_response_time a b s) = is_processing s"
  "threads (record_response_time a b s) = threads s"
  by (simp_all add: record_response_time_def Let_def)

lemma execute_command_frame:
  "commands (execute_command c t s) = commands s"
  "custom_commands (execute_command c t s) = custom_commands s"
  "command_history (execute_command c t s) = command_history s"
  "is_processing (execute_command c t s) = is_processing s"
  "response_times (execute_command c t s) = response_times s"
  by (simp_all add: execute_command_def)

lemma scan_frame:
  assumes "scan_commands rs a b t es s = (r, s')"
  shows "commands s' = commands s" "custom_commands s' = custom_commands s"
    "command_history s' = command_history s" "is_processing s' = is_processing s"
  using scan_outcome [OF assms]
  by (auto simp: record_response_time_frame execute_command_frame)

lemma pvi_guard_clear:
  "\<not> is_processing s \<Longrightarrow> \<not> is_processing (snd (process_voice_input rs a b s text0))"
  by (simp add: pvi_accepted Let_def split: prod.splits)

lemma pvi_history:
  "\<not> is_processing s \<Longrightarrow>
   command_history (snd (process_voice_input rs a b s text0)) =
     command_history s @ [py_strip (py_lower text0)]"
  by (auto simp: pvi_accepted Let_def split: prod.splits dest: scan_frame(3))

lemma pvi_response_times:
  assumes "\<not> is_processing s"
  shows "response_times (snd (process_voice_input rs a b s text0)) =
     (if fst (process_voice_input rs a b s text0) = Inr True
      then last_100 (response_times s @ [b - a]) else response_times s)"
  using assms
  by (auto simp: pvi_accepted Let_def record_response_time_last_100 execute_command_frame
      split: prod.splits dest!: scan_outcome)

lemma thread_exit_frame:
  "is_processing (thread_exit outcome i s) = is_processing s"
  "command_history (thread_exit outcome i s) = command_history s"
  "commands (thread_exit outcome i s) = commands s"
  "custom_commands (thread_exit outcome i s) = custom_commands s"
  "response_times (thread_exit outcome i s) = response_times s"
  by (simp_all add: thread_exit_def split: handler_outcome.splits)

lemma pvi_accepted_proj:
  assumes "\<not> is_processing s"
  shows "fst (process_voice_input rs a b s text0) =
           fst (scan_commands rs a b (py_strip (py_lower text0)) (custom_commands s @ commands s)
             (s\<lparr>is_processing := True,
                command_history := command_history s @ [py_strip (py_lower text0)]\<rparr>))"
    and "snd (process_voice_input rs a b s text0) =
           (snd (scan_commands rs a b (py_strip (py_lower text0)) (custom_commands s @ commands s)
             (s\<lparr>is_processing := True,
                command_history := command_history s @ [py_strip (py_lower text0)]\<rparr>)))
           \<lparr>is_processing := False\<rparr>"
  using assms by (simp_all add: pvi_accepted Let_def case_prod_beta)

text \<open>
  C2, as the code has it. First match wins on an accepted call in which nothing evaluated
  before the match raises: whenever the scan order (custom entries, then builtin entries,
  each in insertion order) reaches an entry \<open>(p, c)\<close> that matches the normalised text and
  every entry before it evaluates to no match, the call returns \<open>True\<close> and starts exactly
  one thread, the one running the handler of \<open>c\<close>, once. The entries after it (\<open>post\<close>) are
  arbitrary: they may match as well or carry a higher priority, and nothing of them shows
  in the result.
\<close>

theorem first_match_wins:
  assumes "\<not> is_processing s"
    and "custom_commands s @ commands s = pre @ (p, c) # post"
    and "\<forall>(q, d) \<in> set pre. match_pattern rs q (py_strip (py_lower text0)) = Inr False"
    and "match_pattern rs p (py_strip (py_lower text0)) = Inr True"
  shows "process_voice_input rs start_time now s text0 =
           (Inr True,
            s\<lparr>command_history := command_history s @ [py_strip (py_lower text0)],
              response_times := last_100 (response_times s @ [now - start_time]),
              threads := threads s @ [(handler c, py_strip (py_lower text0))]\<rparr>)"
  using assms by (rule pvi_hit)

text \<open>
  On the example registry the text \<open>Play MUSIC\<close> matches the custom entry \<open>music\<close> (low
  priority) and the builtin entry \<open>play music|music\<close> (high priority) after it: only the
  first one's handler is started.
\<close>

theorem first_match_wins_witness:
  "process_voice_input literal_search 10 12 example_manager ''Play MUSIC '' =
     (Inr True,
      example_manager\<lparr>command_history := [''play music''],
        response_times := [2],
        threads := [(''my_music'', ''play music'')]\<rparr>)"
proof -
  have 1: "\<not> is_processing example_manager"
    by (simp add: example_manager_def)
  have 2: "custom_commands example_manager @ commands example_manager =
     [example_command ''change theme'' ''theme_change'' NORMAL] @
     (''music'', snd (example_command ''music'' ''my_music'' LOW)) #
     [example_command ''hello|hi'' ''greet'' NORMAL,
      example_command ''play music|music'' ''play_music'' HIGH]"
    by (simp add: example_manager_def example_command_def)
  have 3: "\<forall>(q, d) \<in> set [example_command ''change theme'' ''theme_change'' NORMAL].
     match_pattern literal_search q (py_strip (py_lower ''Play MUSIC '')) = Inr False"
    by code_simp
  have 4: "match_pattern literal_search ''music'' (py_strip (py_lower ''Play MUSIC '')) = Inr True"
    by code_simp
  have 5: "py_strip (py_lower ''Play MUSIC '') = ''play music''"
    by code_simp
  show ?thesis
    using first_match_wins [OF 1 2 3 4, of 10 12]
    by (simp add: 5 last_100_def) (simp add: example_manager_def example_command_def)
qed

text \<open>
  C2, as stated for every registry, fails: a trigger that does not compile raises
  \<open>re.error\<close> when the scan reaches it. In the registry below the first entry with a
  matching alternative is the builtin \<open>hello|hi\<close>, but the custom trigger before it is not
  a regular expression: the exception leaves the call and no handler is started.
\<close>

theorem first_match_lost_to_re_error:
  "\<not> is_processing broken_manager \<and>
   map fst (custom_commands broken_manager @ commands broken_manager) =
     [''('', ''hello|hi'', ''play music|music''] \<and>
   match_pattern literal_search ''('' (py_strip (py_lower ''hello'')) = Inl ReError \<and>
   match_pattern literal_search ''hello|hi'' (py_strip (py_lower ''hello'')) = Inr True \<and>
   fst (process_voice_input literal_search 10 12 broken_manager ''hello'') = Inl ReError \<and>
   threads (snd (process_voice_input literal_search 10 12 broken_manager ''hello'')) = []"
  by code_simp




text \<open>
  C6. The guard. A call made while \<open>is_processing\<close> is set returns \<open>False\<close> and leaves the
  manager as it was: nothing is matched, recorded or started. A call that is accepted
  leaves \<open>is_processing\<close> cleared whatever the scan did (a match, no match, or an
  exception out of \<open>_match_pattern\<close>); the handler runs on its own thread, and whether
  that thread ends by returning or by raising, the guard stays cleared and the next call
  is accepted: its text is appended to the history, which a rejected call never does.
\<close>

theorem guard_released:
  "(is_processing s \<longrightarrow> process_voice_input rs a b s text0 = (Inr False, s)) \<and>
   (\<not> is_processing s \<longrightarrow>
      \<not> is_processing (snd (process_voice_input rs a b s text0)) \<and>
      \<not> is_processing (thread_exit outcome i (snd (process_voice_input rs a b s text0))) \<and>
      command_history (snd (process_voice_input rs a' b'
          (thread_exit outcome i (snd (process_voice_input rs a b s text0))) text1)) =
        command_history s @ [py_strip (py_lower text0), py_strip (py_lower text1)])"
  by (simp add: pvi_rejected pvi_guard_clear thread_exit_frame pvi_history)

text \<open>
  At concrete inputs: a busy manager rejects; a manager whose custom trigger does not
  compile raises \<open>re.error\<close> and still clears the guard; after a handler thread died, the
  next call is accepted.
\<close>

theorem guard_released_witness:
  "process_voice_input literal_search 10 12 busy_manager ''hello'' = (Inr False, busy_manager) \<and>
   fst (process_voice_input literal_search 10 12 broken_manager ''hello'') = Inl ReError \<and>
   \<not> is_processing (snd (process_voice_input literal_search 10 12 broken_manager ''hello'')) \<and>
   command_history (snd (process_voice_input literal_search 20 22
       (thread_exit Raised 0 (snd (process_voice_input literal_search 10 12 example_manager ''hello'')))
       ''music'')) = [''hello'', ''music'']"
proof -
  have busy: "is_processing busy_manager"
    by (simp add: busy_manager_def)
  have free: "\<not> is_processing example_manager" "\<not> is_processing broken_manager"
    by (simp_all add: example_manager_def broken_manager_def)
  have raises: "fst (process_voice_input literal_search 10 12 broken_manager ''hello'') = Inl ReError"
    by code_simp
  have norm: "py_strip (py_lower ''hello'') = ''hello''" "py_strip (py_lower ''music'') = ''music''"
    by code_simp+
  have hist: "command_history example_manager = []"
    by (simp add: example_manager_def)
  show ?thesis
    using guard_released [of busy_manager literal_search 10 12 "''hello''"]
      guard_released [of broken_manager literal_search 10 12 "''hello''" Raised 0 20 22 "''music''"]
      guard_released [of example_manager literal_search 10 12 "''hello''" Raised 0 20 22 "''music''"]
    by (simp add: busy free raises norm hist)
qed

text \<open>
  C7, as the code has it. An accepted call records its latency exactly when it returns
  \<open>True\<close>: the sample \<open>now - start_time\<close> becomes the newest of \<open>response_times\<close>, which
  keeps its last 100 samples (one more sample than before while fewer than 100 were
  held). An accepted call that matches nothing, or whose matching raises, leaves
  \<open>response_times\<close> as it was.
\<close>

theorem latency_recorded_on_match:
  assumes "\<not> is_processing s"
  shows "(fst (process_voice_input rs start_time now s text0) = Inr True \<longrightarrow>
            response_times (snd (process_voice_input rs start_time now s text0)) =
              last_100 (response_times s @ [now - start_time])) \<and>
         (fst (process_voice_input rs start_time now s text0) = Inr True \<and>
          length (response_times s) < 100 \<longrightarrow>
            length (response_times (snd (process_voice_input rs start_time now s text0))) =
              length (response_times s) + 1) \<and>
         (fst (process_voice_input rs start_time now s text0) \<noteq> Inr True \<longrightarrow>
            response_times (snd (process_voice_input rs start_time now s text0)) =
              response_times s)"
  using assms by (simp add: pvi_response_times last_100_def)

theorem latency_recorded_on_match_witness:
  "response_times (snd (process_voice_input literal_search 10 12 example_manager ''Play MUSIC ''))
     = [2] \<and>
   response_times (snd (process_voice_input literal_search 10 12 example_manager ''tell me a joke''))
     = []"
proof -
  have 1: "\<not> is_processing example_manager" "response_times example_manager = []"
    by (simp_all add: example_manager_def)
  have 2: "fst (process_voice_input literal_search 10 12 example_manager ''Play MUSIC '') = Inr True"
    by code_simp
  have 3: "fst (process_voice_input literal_search 10 12 example_manager ''tell me a joke'') = Inr False"
    by code_simp
  show ?thesis
    using latency_recorded_on_match [OF 1(1), of literal_search 10 12 "''Play MUSIC ''"]
      latency_recorded_on_match [OF 1(1), of literal_search 10 12 "''tell me a joke''"]
    by (simp add: 1 2 3 last_100_def)
qed

text \<open>
  C7, as stated, fails: an accepted call on a text that no entry matches returns \<open>False\<close>
  and the buffer has as many samples as before.
\<close>

theorem unmatched_not_recorded:
  "\<not> is_processing example_manager \<and>
   fst (process_voice_input literal_search 10 12 example_manager ''tell me a joke'') = Inr False \<and>
   length (response_times (snd (process_voice_input literal_search 10 12 example_manager
       ''tell me a joke''))) = length (response_times example_manager)"
  by code_simp

section \<open>Metrics\<close>

lemma last_100_short: "length xs \<le> 100 \<Longrightarrow> last_100 xs = xs"
  by (simp add: last_100_def)

lemma last_100_length: "length (last_100 xs) \<le> 100"
  by (simp add: last_100_def)

lemma last_100_snoc: "last_100 (last_100 xs @ [x]) = last_100 (xs @ [x])"
proof -
  have "length xs - (length xs - 100 + 99) + (length xs - 100) = length xs - 99"
    by arith
  then show ?thesis
    by (simp add: last_100_def)
qed

lemma record_many_response_times:
  "length (response_times s) \<le> 100 \<Longrightarrow>
   response_times (record_many cs s) =
     last_100 (response_times s @ map (\<lambda>(a, b). b - a) cs)"
proof (induction cs arbitrary: s rule: rev_induct)
  case Nil
  then show ?case by (simp add: last_100_short)
next
  case (snoc x xs)
  have fold: "record_many (xs @ [x]) s = record_response_time (fst x) (snd x) (record_many xs s)" for s
    by (induction xs arbitrary: s) (cases x; auto)+
  show ?case
    using snoc by (simp add: fold record_response_time_last_100 last_100_snoc case_prod_beta)
qed

text \<open>
  C8. Metrics bound. Starting from a buffer of at most 100 samples (it is empty in a new
  manager), after any sequence of recordings the buffer is the last 100 of all samples in
  recording order, so the oldest are the ones evicted; it never holds more than 100;
  \<open>get_average_response_time\<close> is the arithmetic mean of the buffer, and 0 when it is
  empty; after 150 recordings into an empty buffer the average is the mean of the last 100
  samples, the first 50 having no part in it.
\<close>

theorem metrics_bound:
  assumes "length (response_times s) \<le> 100"
  shows "response_times (record_many cs s) =
           last_100 (response_times s @ map (\<lambda>(a, b). b - a) cs) \<and>
         length (response_times (record_many cs s)) \<le> 100 \<and>
         get_average_response_time (record_many cs s) =
           (if response_times (record_many cs s) = [] then 0
            else sum_list (response_times (record_many cs s)) /
                   real (length (response_times (record_many cs s)))) \<and>
         (response_times s = [] \<and> length cs = 150 \<longrightarrow>
            get_average_response_time (record_many cs s) =
              sum_list (drop 50 (map (\<lambda>(a, b). b - a) cs)) / 100)"
proof -
  have rt: "response_times (record_many cs s) =
      last_100 (response_times s @ map (\<lambda>(a, b). b - a) cs)"
    using assms by (rule record_many_response_times)
  have "get_average_response_time (record_many cs s) =
      sum_list (drop 50 (map (\<lambda>(a, b). b - a) cs)) / 100"
    if "response_times s = []" "length cs = 150"
  proof -
    have "response_times (record_many cs s) = drop 50 (map (\<lambda>(a, b). b - a) cs)"
      using that by (simp add: rt last_100_def)
    moreover have "length (drop 50 (map (\<lambda>(a, b). b - a) cs)) = 100"
      using that by simp
    ultimately show ?thesis
      by (auto simp: get_average_response_time_def)
  qed
  then show ?thesis
    by (simp add: rt last_100_length get_average_response_time_def)
qed

text \<open>Fifty samples of 1 second followed by a hundred of 3 seconds average to 3.\<close>

theorem metrics_bound_witness:
  "get_average_response_time
     (record_many (replicate 50 (0, 1) @ replicate 100 (0, 3)) example_manager) = 3"
proof -
  have 1: "length (response_times example_manager) \<le> 100" "response_times example_manager = []"
    by (simp_all add: example_manager_def)
  have 2: "length (replicate 50 (0::real, 1::real) @ replicate 100 (0, 3)) = 150"
    by simp
  from metrics_bound [OF 1(1), of "replicate 50 (0, 1) @ replicate 100 (0, 3)"] 1(2) 2
  have "get_average_response_time
      (record_many (replicate 50 (0, 1) @ replicate 100 (0, 3)) example_manager) =
      sum_list (drop 50 (map (\<lambda>(a, b). b - a) (replicate 50 (0, 1) @ replicate 100 (0, 3)))) / 100"
    by blast
  then show ?thesis
    by (simp add: sum_list_replicate)
qed

section \<open>Priorities\<close>

lemma forget_priority_match:
  "map forget_priority es = map forget_priority es' \<Longrightarrow> forget_priorities s = forget_priorities s' \<Longrightarrow>
   fst (scan_commands rs a b t es s) = fst (scan_commands rs a b t es' s') \<and>
   forget_priorities (snd (scan_commands rs a b t es s)) =
     forget_priorities (snd (scan_commands rs a b t es' s'))"
proof (induction es arbitrary: es')
  case Nil
  then show ?case by simp
next
  case (Cons e es)
  then obtain e' es2 where es': "es' = e' # es2" "forget_priority e = forget_priority e'"
    "map forget_priority es = map forget_priority es2"
    by (cases es') auto
  obtain p c where e: "e = (p, c)" by (cases e)
  obtain p' c' where e': "e' = (p', c')" by (cases e')
  have pc: "p' = p" "handler c' = handler c"
    using es'(2) unfolding e e' forget_priority_def
    by (auto dest: arg_cong [where f = handler])
  have st: "forget_priorities (record_response_time a b (execute_command c t s)) =
      forget_priorities (record_response_time a b (execute_command c' t s'))"
    using Cons.prems(2) pc
    unfolding forget_priorities_def record_response_time_def execute_command_def Let_def
    by (cases s; cases s') auto
  show ?case
    using Cons.IH [OF es'(3) Cons.prems(2)] st Cons.prems(2)
    by (simp add: es' e e' pc split: sum.splits bool.splits)
qed

lemma forget_priorities_fields:
  "forget_priorities s = forget_priorities s' \<Longrightarrow>
   is_processing s = is_processing s' \<and> command_history s = command_history s' \<and>
   threads s = threads s' \<and> response_times s = response_times s' \<and>
   map forget_priority (commands s) = map forget_priority (commands s') \<and>
   map forget_priority (custom_commands s) = map forget_priority (custom_commands s')"
  unfolding forget_priorities_def by (cases s; cases s') simp

lemma forget_priorities_update:
  "forget_priorities s = forget_priorities s' \<Longrightarrow>
   forget_priorities (s\<lparr>is_processing := x\<rparr>) = forget_priorities (s'\<lparr>is_processing := x\<rparr>)"
  "forget_priorities s = forget_priorities s' \<Longrightarrow>
   forget_priorities (s\<lparr>is_processing := x, command_history := h\<rparr>) =
     forget_priorities (s'\<lparr>is_processing := x, command_history := h\<rparr>)"
  unfolding forget_priorities_def by (cases s; cases s'; simp)+

text \<open>
  C9. Matching does not read the priority. For two managers that are equal except for the
  priorities of their entries, and any text, \<open>process_voice_input\<close> returns the same
  result (the same boolean, or the same exception), starts the same handler threads, and
  leaves managers that again differ in priorities only.
\<close>

theorem priority_irrelevant:
  assumes "forget_priorities s = forget_priorities s'"
  shows "fst (process_voice_input rs a b s text0) = fst (process_voice_input rs a b s' text0) \<and>
         threads (snd (process_voice_input rs a b s text0)) =
           threads (snd (process_voice_input rs a b s' text0)) \<and>
         forget_priorities (snd (process_voice_input rs a b s text0)) =
           forget_priorities (snd (process_voice_input rs a b s' text0))"
proof (cases "is_processing s")
  case True
  then have "is_processing s'"
    using forget_priorities_fields [OF assms] by simp
  with True assms show ?thesis
    using forget_priorities_fields [OF assms] by (simp add: pvi_rejected)
next
  case False
  then have False': "\<not> is_processing s'"
    using forget_priorities_fields [OF assms] by simp
  let ?t = "py_strip (py_lower text0)"
  let ?s2 = "s\<lparr>is_processing := True, command_history := command_history s @ [?t]\<rparr>"
  let ?s2' = "s'\<lparr>is_processing := True, command_history := command_history s @ [?t]\<rparr>"
  have h: "command_history s' = command_history s"
    using forget_priorities_fields [OF assms] by simp
  have es: "map forget_priority (custom_commands s @ commands s) =
      map forget_priority (custom_commands s' @ commands s')"
    using forget_priorities_fields [OF assms] by simp
  have st: "forget_priorities ?s2 = forget_priorities ?s2'"
    using assms by (rule forget_priorities_update)
  note m = forget_priority_match [OF es st, of rs a b ?t]
  have res: "fst (process_voice_input rs a b s text0) = fst (process_voice_input rs a b s' text0)"
    using m False False' by (simp add: pvi_accepted_proj h)
  have fin: "forget_priorities (snd (process_voice_input rs a b s text0)) =
      forget_priorities (snd (process_voice_input rs a b s' text0))"
  proof -
    from m have "forget_priorities (snd (scan_commands rs a b ?t (custom_commands s @ commands s) ?s2)) =
        forget_priorities (snd (scan_commands rs a b ?t (custom_commands s' @ commands s') ?s2'))"
      by simp
    then have "forget_priorities
          ((snd (scan_commands rs a b ?t (custom_commands s @ commands s) ?s2))
             \<lparr>is_processing := False\<rparr>) =
        forget_priorities
          ((snd (scan_commands rs a b ?t (custom_commands s' @ commands s') ?s2'))
             \<lparr>is_processing := False\<rparr>)"
      by (rule forget_priorities_update(1))
    then show ?thesis
      using False False' by (simp add: pvi_accepted_proj h)
  qed
  from res fin show ?thesis
    using forget_priorities_fields [OF fin] by simp
qed

theorem priority_irrelevant_witness:
  "fst (process_voice_input literal_search 10 12 example_manager ''Play MUSIC '') =
     fst (process_voice_input literal_search 10 12 reprioritised_manager ''Play MUSIC '') \<and>
   threads (snd (process_voice_input literal_search 10 12 example_manager ''Play MUSIC '')) =
     threads (snd (process_voice_input literal_search 10 12 reprioritised_manager ''Play MUSIC ''))"
proof -
  have "forget_priorities example_manager = forget_priorities reprioritised_manager"
    by (simp add: forget_priorities_def forget_priority_def example_manager_def
        reprioritised_manager_def example_command_def)
  from priority_irrelevant [OF this, of literal_search 10 12 "''Play MUSIC ''"]
  show ?thesis by simp
qed

section \<open>The listener callback and the speaking gates\<close>

lemma emit_frame [simp]:
  "tts_service (emit e w) = tts_service w"
  "fast_tts (emit e w) = fast_tts w"
  "trace (emit e w) = trace w @ [e]"
  by (simp_all add: emit_def)

lemma set_fast_frame [simp]:
  "tts_service (set_fast f w) = tts_service w"
  "fast_tts (set_fast f w) = f (fast_tts w)"
  "trace (set_fast f w) = trace w"
  by (simp_all add: set_fast_def)

lemma set_tts_playing_frame [simp]:
  "tts_playing (tts_service (set_tts_playing b w)) = b"
  "edge_tts_loaded (tts_service (set_tts_playing b w)) = edge_tts_loaded (tts_service w)"
  "fast_tts (set_tts_playing b w) = fast_tts w"
  "trace (set_tts_playing b w) = trace w"
  by (simp_all add: set_tts_playing_def)

text \<open>
  C1. Self-hearing suppression. A capture result delivered to the callback while
  \<open>tts_service.is_playing()\<close> is true is discarded: the callback returns with the process
  unchanged, so the recogniser was not called on it and no thread running
  \<open>handle_command\<close> was started for it.
\<close>

theorem self_hearing_suppression:
  "is_playing (tts_service w) \<Longrightarrow> callback recognize_google w audio = w"
  by (simp add: callback_def)

text \<open>
  The same capture is discarded while speaking and dispatched when the gate is open.
\<close>

theorem self_hearing_suppression_witness:
  "callback (\<lambda>a. Inr ''hello'') speaking_world ''pcm'' = speaking_world \<and>
   trace (callback (\<lambda>a. Inr ''hello'') example_world ''pcm'') =
     [RecognizeGoogle ''pcm'', ThreadStart ''handle_command'' ''hello'']"
proof -
  have "is_playing (tts_service speaking_world)"
    by (simp add: speaking_world_def is_playing_def)
  from self_hearing_suppression [OF this, of "\<lambda>a. Inr ''hello''" "''pcm''"]
  have 1: "callback (\<lambda>a. Inr ''hello'') speaking_world ''pcm'' = speaking_world" .
  have 2: "trace (callback (\<lambda>a. Inr ''hello'') example_world ''pcm'') =
     [RecognizeGoogle ''pcm'', ThreadStart ''handle_command'' ''hello'']"
    by code_simp
  from 1 2 show ?thesis by simp
qed

section \<open>The fast-TTS worker\<close>

lemma generate_audio_frame [simp]:
  "tts_service (snd (generate_audio env ssml w)) = tts_service w"
  "fast_tts (snd (generate_audio env ssml w)) = fast_tts w"
  by (simp_all add: generate_audio_def split: sum.splits)

lemma play_audio_frame [simp]:
  "tts_service (play_audio env a w) = tts_service w"
  "fast_tts (play_audio env a w) = fast_tts w"
  by (simp_all add: play_audio_def split: option.splits py_error.splits)

lemma process_tts_request_body_frame [simp]:
  "tts_service (snd (process_tts_request_body env r w)) = tts_service w"
  "fast_tts (snd (process_tts_request_body env r w)) = fast_tts w"
  by (simp_all add: process_tts_request_body_def Let_def case_prod_beta split: option.splits)

lemma process_tts_request_frame [simp]:
  "tts_service (process_tts_request env r w) = tts_service w"
  "fast_tts (process_tts_request env r w) = fast_tts w"
  by (simp_all add: process_tts_request_def case_prod_beta split: sum.splits)

lemma process_tts_request_body_error:
  "fst (process_tts_request_body env r w) = Inl e \<Longrightarrow>
   \<exists>c. req_callback r = Some c \<and> callback_outcome env c = Some e"
  by (auto simp: process_tts_request_body_def Let_def case_prod_beta split: option.splits)

lemma tts_worker_body_frame [simp]:
  "tts_service (snd (tts_worker_body env now w)) = tts_service w"
  by (simp add: tts_worker_body_def Let_def task_done_def split: list.splits sum.splits)

lemma tts_worker_iteration_frame [simp]:
  "tts_service (tts_worker_iteration env now w) = tts_service w"
proof -
  have "tts_service (snd (tts_worker_body env now w)) = tts_service w" by simp
  then show ?thesis
    by (cases "tts_worker_body env now w")
       (auto simp: tts_worker_iteration_def split: sum.splits py_error.splits)
qed

lemma tts_worker_frame [simp]:
  "tts_service (tts_worker env nows w) = tts_service w"
  by (induction nows arbitrary: w) simp_all

lemma fast_speak_frame [simp]:
  "tts_service (snd (fast_speak env now txt v r p vol cb w)) = tts_service w"
  by (simp add: fast_speak_def Let_def split: option.splits)

lemma clear_queue_frame [simp]:
  "tts_service (snd (clear_queue w)) = tts_service w"
  by (simp add: clear_queue_def Let_def case_prod_beta)

lemma stop_current_speech_frame [simp]:
  "tts_service (stop_current_speech env w) = tts_service w"
  by (simp add: stop_current_speech_def split: sum.splits bool.splits)

lemma speak_immediate_frame [simp]:
  "tts_service (snd (speak_immediate env now txt v w)) = tts_service w"
proof (cases "clear_queue w")
  case (Pair r w1)
  then have "tts_service w1 = tts_service w"
    using clear_queue_frame [of w] by simp
  with Pair show ?thesis
    by (cases r) (simp_all add: speak_immediate_def)
qed

lemma tts_worker_iteration_stale:
  assumes "items (voice_queue (fast_tts w)) = request # rest"
    and "now - req_timestamp request > 5"
  shows "tts_worker_iteration env now w =
           set_fast (\<lambda>f. f\<lparr>voice_queue := (voice_queue f)\<lparr>items := rest\<rparr>\<rparr>) w"
  using assms by (simp add: tts_worker_iteration_def tts_worker_body_def)

text \<open>
  C4. Staleness drop. When the request at the head of the queue is older than 5 seconds
  at the reading of the clock the worker takes after dequeuing it, that turn of the loop
  only removes it: the trace is unchanged (no synthesis, no playback, no callback), the
  speaking flag is unchanged, and the rest of the run is the worker on the remaining
  queue, whose head is the next item.
\<close>

theorem stale_request_dropped:
  assumes "items (voice_queue (fast_tts w)) = request # rest"
    and "now - req_timestamp request > 5"
  shows "tts_worker_iteration env now w =
           set_fast (\<lambda>f. f\<lparr>voice_queue := (voice_queue f)\<lparr>items := rest\<rparr>\<rparr>) w \<and>
         trace (tts_worker_iteration env now w) = trace w \<and>
         is_speaking (fast_tts (tts_worker_iteration env now w)) = is_speaking (fast_tts w) \<and>
         items (voice_queue (fast_tts (tts_worker_iteration env now w))) = rest \<and>
         tts_worker env (now # nows) w =
           tts_worker env nows
             (set_fast (\<lambda>f. f\<lparr>voice_queue := (voice_queue f)\<lparr>items := rest\<rparr>\<rparr>) w)"
  using tts_worker_iteration_stale [OF assms] by simp

theorem stale_request_dropped_witness:
  "items (voice_queue (fast_tts (tts_worker_iteration failing_env 106 example_world))) =
     [example_request ''B'' 107] \<and>
   trace (tts_worker_iteration failing_env 106 example_world) = [] \<and>
   tts_worker failing_env [106, 108] example_world =
     tts_worker failing_env [108]
       (set_fast (\<lambda>f. f\<lparr>voice_queue := (voice_queue f)\<lparr>items := [example_request ''B'' 107]\<rparr>\<rparr>)
          example_world)"
proof -
  have 1: "items (voice_queue (fast_tts example_world)) =
      example_request ''A'' 100 # [example_request ''B'' 107]"
    by (simp add: example_world_def)
  have 2: "106 - req_timestamp (example_request ''A'' 100) > 5"
    by (simp add: example_request_def)
  have 3: "trace example_world = []"
    by (simp add: example_world_def)
  from stale_request_dropped [OF 1 2, of failing_env "[108]"] 3
  show ?thesis by simp
qed

lemma speak_runner_releases:
  "tts_playing (tts_service (speak_runner env txt voice w)) = False"
  by (simp add: speak_runner_def Let_def)

lemma tts_worker_iteration_fresh:
  assumes "items (voice_queue (fast_tts w)) = request # rest"
    and "\<not> now - req_timestamp request > 5"
  shows "is_speaking (fast_tts (tts_worker_iteration env now w)) = False"
    and "items (voice_queue (fast_tts (tts_worker_iteration env now w))) = rest"
  using assms
  by (simp_all add: tts_worker_iteration_def tts_worker_body_def Let_def task_done_def)

lemma tts_speak_frame:
  "tts_service (fst (tts_speak env txt language w)) = tts_service w"
  by (simp add: tts_speak_def Let_def)

text \<open>
  C5. The gate is released on every exit path. Whatever the collaborators do (saving,
  synthesis, playback and the callback may each raise), the thread body of
  \<open>TTSService.speak\<close> ends with \<open>tts_playing\<close> false, and \<open>speak\<close> itself does not touch
  the flag; a turn of the fast-TTS worker that processes a request (one that is not stale)
  ends with \<open>is_speaking\<close> false and with the queue advanced to the next item, so the
  following turn takes that item: no exception of a request ends the loop.
\<close>

theorem gate_released:
  "tts_playing (tts_service (speak_runner tenv txt voice w)) = False \<and>
   tts_service (fst (tts_speak tenv txt language w)) = tts_service w \<and>
   (items (voice_queue (fast_tts w)) = request # rest \<and> \<not> now - req_timestamp request > 5 \<longrightarrow>
      is_speaking (fast_tts (tts_worker_iteration env now w)) = False \<and>
      items (voice_queue (fast_tts (tts_worker_iteration env now w))) = rest)"
  by (simp add: speak_runner_releases tts_speak_frame tts_worker_iteration_fresh)

text \<open>
  With collaborators that fail: the gates are released, the failed request \<open>A\<close> is gone
  from the queue, and the next turn synthesises \<open>B\<close>.
\<close>

theorem gate_released_witness:
  "tts_playing (tts_service (speak_runner failing_tts_env ''hello there'' ''en-US-JennyNeural''
      example_world)) = False \<and>
   is_speaking (fast_tts (tts_worker_iteration failing_env 104 example_world)) = False \<and>
   items (voice_queue (fast_tts (tts_worker_iteration failing_env 104 example_world))) =
     [example_request ''B'' 107] \<and>
   Synthesize (make_ssml ''en-US-AriaNeural'' ''+0%'' ''+0Hz'' ''+0%'' ''B'')
     \<in> set (trace (tts_worker failing_env [104, 108] example_world))"
proof -
  have 1: "items (voice_queue (fast_tts example_world)) =
      example_request ''A'' 100 # [example_request ''B'' 107]"
    by (simp add: example_world_def)
  have 2: "\<not> 104 - req_timestamp (example_request ''A'' 100) > 5"
    by (simp add: example_request_def)
  have 3: "Synthesize (make_ssml ''en-US-AriaNeural'' ''+0%'' ''+0Hz'' ''+0%'' ''B'')
     \<in> set (trace (tts_worker failing_env [104, 108] example_world))"
    by code_simp
  from gate_released [of failing_tts_env "''hello there''" "''en-US-JennyNeural''" example_world
      None "example_request ''A'' 100" "[example_request ''B'' 107]" 104 failing_env] 1 2 3
  show ?thesis by simp
qed

text \<open>
  C10. No operation of \<open>FastTTSService\<close> modifies \<open>TTSService\<close>: \<open>speak\<close>,
  \<open>speak_immediate\<close>, the processing of a request and any number of turns of the worker
  loop leave \<open>tts_service\<close>, hence \<open>tts_playing\<close> and the answer of \<open>is_playing()\<close> that the
  listener callback consults, as they were. They write \<open>is_speaking\<close> and the queue of
  \<open>FastTTSService\<close> only.
\<close>

theorem fast_tts_leaves_tts_playing:
  "tts_service (snd (fast_speak env now txt v r p vol cb w)) = tts_service w \<and>
   tts_service (snd (speak_immediate env now txt v w)) = tts_service w \<and>
   tts_service (process_tts_request env request w) = tts_service w \<and>
   tts_service (tts_worker_iteration env now w) = tts_service w \<and>
   tts_service (tts_worker env nows w) = tts_service w \<and>
   is_playing (tts_service (tts_worker env nows w)) = is_playing (tts_service w)"
  by simp

end
